theory Spec2Isabelle
  imports Main "HOL-Library.Sublist"
begin

section \<open>Python values, exceptions and dictionaries\<close>

text \<open>
  The two Lambda functions of the repository (\<^verbatim>\<open>src/lambda/cw_alarm/cw_alarm.py\<close> and
  \<^verbatim>\<open>src/lambda/ddb/default_alarms.py\<close>) are embedded as HOL functions. An exception is
  a value of \<open>exn\<close>; a function that may raise returns \<open>exn + 'a\<close> with \<open>Inl\<close> the
  exception. \<open>SystemExit\<close> (raised by \<^verbatim>\<open>sys.exit\<close>) is the one exception here that is not
  a subclass of \<^verbatim>\<open>Exception\<close>, so \<^verbatim>\<open>except Exception\<close> does not catch it.
\<close>

datatype exn =
    KeyError string
  | IndexError
  | TypeError
  | ValueError
  | ClientError
  | ParamValidationError
  | SystemExit int

fun is_Exception :: "exn \<Rightarrow> bool" where
  "is_Exception (SystemExit _) = False"
| "is_Exception _ = True"

text \<open>
  A value read from the definition store through the boto3 resource interface: a string,
  a number, a boolean, None, or a map. A dictionary is an association list with distinct
  keys, in iteration order.
\<close>

datatype pyval =
    PStr string
  | PNum int
  | PBool bool
  | PNone
  | PDict "(string \<times> pyval) list"

definition bind_exn :: "exn + 'a \<Rightarrow> ('a \<Rightarrow> exn + 'b) \<Rightarrow> exn + 'b" where
  "bind_exn m f = (case m of Inl e \<Rightarrow> Inl e | Inr x \<Rightarrow> f x)"

text \<open>\<^verbatim>\<open>d[k]\<close> on a dictionary: KeyError when the key is absent.\<close>

definition dict_get :: "(string \<times> 'v) list \<Rightarrow> string \<Rightarrow> exn + 'v" where
  "dict_get d k = (case map_of d k of None \<Rightarrow> Inl (KeyError k) | Some v \<Rightarrow> Inr v)"

text \<open>\<^verbatim>\<open>v[k]\<close> with a string key on any value: only a dictionary can be indexed so.\<close>

fun subscript :: "pyval \<Rightarrow> string \<Rightarrow> exn + pyval" where
  "subscript (PDict d) k = dict_get d k"
| "subscript _ k = Inl TypeError"

text \<open>\<^verbatim>\<open>for metric in alarms\<close>: a dictionary yields its keys, a string its characters,
  and the other values are not iterable.\<close>

fun iter_keys :: "pyval \<Rightarrow> exn + string list" where
  "iter_keys (PDict d) = Inr (map fst d)"
| "iter_keys (PStr s) = Inr (map (\<lambda>c. [c]) s)"
| "iter_keys _ = Inl TypeError"

section \<open>Alarm naming\<close>

text \<open>
  Both files build an alarm name with the same f-string,
  \<^verbatim>\<open>f"{name}-{type}-{instance_id}-{suffix}"\<close> (cw\_alarm.py line 140, default\_alarms.py
  lines 104 and 135).
\<close>

definition alarm_name_of :: "string \<Rightarrow> string \<Rightarrow> string \<Rightarrow> string \<Rightarrow> string" where
  "alarm_name_of name type instance_id sfx =
     name @ ''-'' @ type @ ''-'' @ instance_id @ ''-'' @ sfx"

text \<open>\<^verbatim>\<open>s.split(c)\<close> for a one-character separator: never empty, \<^verbatim>\<open>''.split('-') == ['']\<close>.\<close>

fun split_str :: "char \<Rightarrow> string \<Rightarrow> string list" where
  "split_str c [] = [[]]"
| "split_str c (x # xs) =
     (if x = c then [] # split_str c xs
      else (case split_str c xs of
              [] \<Rightarrow> [[x]]
            | w # ws \<Rightarrow> (x # w) # ws))"

text \<open>\<^verbatim>\<open>sep.join(parts)\<close>.\<close>

fun join_str :: "string \<Rightarrow> string list \<Rightarrow> string" where
  "join_str sep [] = []"
| "join_str sep [p] = p"
| "join_str sep (p # q # ps) = p @ sep @ join_str sep (q # ps)"

text \<open>The slice \<^verbatim>\<open>parts[2:-1]\<close>: from index 2 up to, not including, the last element.\<close>

definition slice_2_to_last :: "'a list \<Rightarrow> 'a list" where
  "slice_2_to_last parts = drop 2 (take (length parts - 1) parts)"

text \<open>default\_alarms.py lines 60 to 62: the instance id is read back from an alarm name.\<close>

definition decode_instance_id :: "string \<Rightarrow> string" where
  "decode_instance_id alarm_name =
     join_str ''-'' (slice_2_to_last (split_str CHR ''-'' alarm_name))"

section \<open>The external services\<close>

text \<open>
  The keyword arguments of \<^verbatim>\<open>cloudwatch.put_metric_alarm\<close>, as the two files pass them.
  \<open>AlarmDescription\<close>, \<open>ActionsEnabled\<close> and \<open>AlarmActions\<close> are given by one call site
  only (cw\_alarm.py lines 53 to 66), so they are optional here; no other keyword is
  passed anywhere. A dimension \<^verbatim>\<open>{'Name': n, 'Value': v}\<close> is the pair \<open>(n, v)\<close>. The type
  \<open>'f\<close> is that of Python floats.
\<close>

record 'f put_args =
  AlarmName :: string
  AlarmDescription :: "pyval option"
  MetricName :: pyval
  Namespace :: string
  Dimensions :: "(string \<times> string) list"
  Period :: int
  EvaluationPeriods :: int
  Threshold :: 'f
  ComparisonOperator :: pyval
  Statistic :: pyval
  ActionsEnabled :: "bool option"
  AlarmActions :: "string list option"

text \<open>
  The calls the code makes to the definition store (\<open>BatchGetItem table name type\<close>), to
  the monitoring service and to the autoscaling service
  (\<open>CompleteLifecycleAction hook group result instance\<close>).
\<close>

datatype 'f call =
    BatchGetItem string string string
  | PutMetricAlarm "'f put_args"
  | DescribeAlarms string
  | DeleteAlarms "string list option"
  | CompleteLifecycleAction string string string string

text \<open>
  The state outside the process: the alarms the monitoring service holds (each as it was
  last put) and the calls made so far, oldest first.
\<close>

record 'f world =
  cw_alarms :: "'f put_args list"
  trace :: "'f call list"

text \<open>
  What an invocation is given from outside. \<open>TABLE_NAME\<close> and \<open>SNS_TOPIC_ARN\<close> are the two
  environment variables (both set). \<open>instance_tags_of\<close> is \<^verbatim>\<open>ec2.Instance(id).tags\<close> (None
  for an instance without tags), \<open>batch_get_item\<close> the \<^verbatim>\<open>Responses\<close> of the store's answer
  for a table and key. \<open>raises\<close> tells, from the calls made so far and the call at hand,
  whether the call raises and what: it stands for every failure of the monitoring and
  autoscaling services and of the client library's own parameter validation. \<open>py_float\<close>,
  \<open>py_int\<close> and \<open>py_str\<close> are Python's \<^verbatim>\<open>float\<close>, \<^verbatim>\<open>int\<close> and the formatting of a value
  that is not a string.
\<close>

record 'f env =
  TABLE_NAME :: string
  SNS_TOPIC_ARN :: string
  instance_tags_of :: "string \<Rightarrow> exn + (string \<times> string) list option"
  batch_get_item ::
    "string \<Rightarrow> string \<Rightarrow> string \<Rightarrow> exn + (string \<times> (string \<times> pyval) list list) list"
  raises :: "'f call list \<Rightarrow> 'f call \<Rightarrow> exn option"
  py_float :: "pyval \<Rightarrow> exn + 'f"
  py_int :: "pyval \<Rightarrow> exn + int"
  py_str :: "pyval \<Rightarrow> string"

definition record_call :: "'f call \<Rightarrow> 'f world \<Rightarrow> 'f world" where
  "record_call c w = w\<lparr>trace := trace w @ [c]\<rparr>"

text \<open>A put replaces the alarm of the same name, or adds one.\<close>

fun upsert_alarm :: "'f put_args \<Rightarrow> 'f put_args list \<Rightarrow> 'f put_args list" where
  "upsert_alarm a [] = [a]"
| "upsert_alarm a (b # bs) =
     (if AlarmName b = AlarmName a then a # bs else b # upsert_alarm a bs)"

definition put_metric_alarm ::
  "'f env \<Rightarrow> 'f put_args \<Rightarrow> 'f world \<Rightarrow> (exn + unit) \<times> 'f world" where
  "put_metric_alarm env args w =
     (case raises env (trace w) (PutMetricAlarm args) of
        Some e \<Rightarrow> (Inl e, record_call (PutMetricAlarm args) w)
      | None \<Rightarrow>
          (Inr (), record_call (PutMetricAlarm args)
                     (w\<lparr>cw_alarms := upsert_alarm args (cw_alarms w)\<rparr>)))"

text \<open>\<^verbatim>\<open>describe_alarms(AlarmNamePrefix=p)['MetricAlarms']\<close>: the alarms whose name starts
  with the prefix.\<close>

definition describe_alarms ::
  "'f env \<Rightarrow> string \<Rightarrow> 'f world \<Rightarrow> (exn + 'f put_args list) \<times> 'f world" where
  "describe_alarms env p w =
     (case raises env (trace w) (DescribeAlarms p) of
        Some e \<Rightarrow> (Inl e, record_call (DescribeAlarms p) w)
      | None \<Rightarrow>
          (Inr (filter (\<lambda>a. prefix p (AlarmName a)) (cw_alarms w)),
           record_call (DescribeAlarms p) w))"

text \<open>\<^verbatim>\<open>delete_alarms(AlarmNames=names)\<close>: None is not a list, which the client library
  refuses; a name that no alarm has is not an error.\<close>

definition delete_alarms ::
  "'f env \<Rightarrow> string list option \<Rightarrow> 'f world \<Rightarrow> (exn + unit) \<times> 'f world" where
  "delete_alarms env names w =
     (case names of
        None \<Rightarrow> (Inl ParamValidationError, record_call (DeleteAlarms None) w)
      | Some ns \<Rightarrow>
          (case raises env (trace w) (DeleteAlarms names) of
             Some e \<Rightarrow> (Inl e, record_call (DeleteAlarms names) w)
           | None \<Rightarrow>
               (Inr (), record_call (DeleteAlarms names)
                          (w\<lparr>cw_alarms := filter (\<lambda>a. AlarmName a \<notin> set ns) (cw_alarms w)\<rparr>))))"

definition complete_lifecycle_action ::
  "'f env \<Rightarrow> string \<Rightarrow> string \<Rightarrow> string \<Rightarrow> string \<Rightarrow> 'f world \<Rightarrow> (exn + unit) \<times> 'f world" where
  "complete_lifecycle_action env hook_name group_name action_result instance_id w =
     (let c = CompleteLifecycleAction hook_name group_name action_result instance_id in
      case raises env (trace w) c of
        Some e \<Rightarrow> (Inl e, record_call c w)
      | None \<Rightarrow> (Inr (), record_call c w))"

section \<open>The lifecycle handler (cw\_alarm.py)\<close>

record event =
  EC2InstanceId :: string
  LifecycleHookName :: string
  AutoScalingGroupName :: string
  LifecycleTransition :: string

text \<open>\<^verbatim>\<open>get_alarms\<close>, lines 26 to 42.\<close>

definition get_alarms ::
  "'f env \<Rightarrow> string \<Rightarrow> string \<Rightarrow> string \<Rightarrow> 'f world \<Rightarrow>
     (exn + (string \<times> (string \<times> pyval) list list) list) \<times> 'f world" where
  "get_alarms env application_name_tag_value application_type_tag_value ddb_alarm_table w =
     (batch_get_item env ddb_alarm_table application_name_tag_value application_type_tag_value,
      record_call
        (BatchGetItem ddb_alarm_table application_name_tag_value application_type_tag_value) w)"

text \<open>The indexing of line 121 on the answer: \<^verbatim>\<open>[dynamodb_alarm_table][0]['Alarms']\<close>.\<close>

definition alarms_of_response ::
  "string \<Rightarrow> (string \<times> (string \<times> pyval) list list) list \<Rightarrow> exn + pyval" where
  "alarms_of_response table responses =
     bind_exn (dict_get responses table) (\<lambda>items.
       (case items of
          [] \<Rightarrow> Inl IndexError
        | item # _ \<Rightarrow> dict_get item ''Alarms''))"

text \<open>
  \<^verbatim>\<open>create_alarm\<close> of cw\_alarm.py, lines 45 to 75. The two conversions stand before the
  \<^verbatim>\<open>try\<close>, so what they raise is not caught; what the put raises is caught (and logged)
  when it is an \<^verbatim>\<open>Exception\<close>.
\<close>

definition create_alarm ::
  "'f env \<Rightarrow> string \<Rightarrow> pyval \<Rightarrow> pyval \<Rightarrow> pyval \<Rightarrow> pyval \<Rightarrow> pyval \<Rightarrow> string \<Rightarrow>
     (string \<times> string) list \<Rightarrow> bool \<Rightarrow> string \<Rightarrow> pyval \<Rightarrow> 'f world \<Rightarrow> (exn + unit) \<times> 'f world" where
  "create_alarm env alarm_name metric_name comparison_operator period threshold statistic
       namespace dimensions action_enabled sns_topic_arn alarm_description w =
     (case py_float env threshold of
        Inl e \<Rightarrow> (Inl e, w)
      | Inr th \<Rightarrow>
     (case py_int env period of
        Inl e \<Rightarrow> (Inl e, w)
      | Inr p \<Rightarrow>
     (case put_metric_alarm env
             \<lparr>AlarmName = alarm_name,
              AlarmDescription = Some alarm_description,
              MetricName = metric_name,
              Namespace = namespace,
              Dimensions = dimensions,
              Period = p,
              EvaluationPeriods = 1,
              Threshold = th,
              ComparisonOperator = comparison_operator,
              Statistic = statistic,
              ActionsEnabled = Some action_enabled,
              AlarmActions = Some [sns_topic_arn]\<rparr> w of
        (Inl e, w') \<Rightarrow> (if is_Exception e then (Inr (), w') else (Inl e, w'))
      | (Inr u, w') \<Rightarrow> (Inr (), w'))))"

text \<open>\<^verbatim>\<open>get_alarm_name\<close>, lines 78 to 92: the handler of the \<^verbatim>\<open>except\<close> returns nothing,
  that is None.\<close>

definition get_alarm_name ::
  "'f env \<Rightarrow> string \<Rightarrow> string \<Rightarrow> string \<Rightarrow> 'f world \<Rightarrow> (exn + string list option) \<times> 'f world" where
  "get_alarm_name env application_name_tag_value application_type_tag_value instance_id w =
     (let alarm_prefix =
            application_name_tag_value @ ''-'' @ application_type_tag_value @ ''-'' @ instance_id
      in case describe_alarms env alarm_prefix w of
           (Inl e, w') \<Rightarrow> (if is_Exception e then (Inr None, w') else (Inl e, w'))
         | (Inr alarms, w') \<Rightarrow> (Inr (Some (map AlarmName alarms)), w'))"

text \<open>A value inside an f-string: a string stands for itself.\<close>

definition format_value :: "'f env \<Rightarrow> pyval \<Rightarrow> string" where
  "format_value env v = (case v of PStr s \<Rightarrow> s | _ \<Rightarrow> py_str env v)"

text \<open>\<^verbatim>\<open>alarms[metric][k]\<close>.\<close>

definition alarm_field :: "pyval \<Rightarrow> string \<Rightarrow> string \<Rightarrow> exn + pyval" where
  "alarm_field alarms metric k = bind_exn (subscript alarms metric) (\<lambda>d. subscript d k)"

text \<open>The body of the loop of lines 128 to 147, for one key of the definitions.\<close>

definition create_alarm_for_metric ::
  "'f env \<Rightarrow> pyval \<Rightarrow> string \<Rightarrow> string \<Rightarrow> string \<Rightarrow> string \<Rightarrow> 'f world \<Rightarrow> (exn + unit) \<times> 'f world" where
  "create_alarm_for_metric env alarms application_name_tag_value application_type_tag_value
       instance_id metric w =
     (case
        bind_exn (alarm_field alarms metric ''MetricName'') (\<lambda>metric_name.
        bind_exn (alarm_field alarms metric ''AlarmName'') (\<lambda>alarm.
        bind_exn (alarm_field alarms metric ''AlarmDescription'') (\<lambda>alarm_description.
        bind_exn (alarm_field alarms metric ''ComparisonOperator'') (\<lambda>comparison_operator.
        bind_exn (alarm_field alarms metric ''Period'') (\<lambda>period.
        bind_exn (alarm_field alarms metric ''Statistic'') (\<lambda>statistic.
        bind_exn (alarm_field alarms metric ''Threshold'') (\<lambda>threshold.
        bind_exn (alarm_field alarms metric ''ActionsEnabled'') (\<lambda>actions_enabled.
          Inr (metric_name, alarm, alarm_description, comparison_operator, period,
               statistic, threshold, actions_enabled)))))))))
      of
        Inl e \<Rightarrow> (Inl e, w)
      | Inr (metric_name, alarm, alarm_description, comparison_operator, period,
             statistic, threshold, actions_enabled) \<Rightarrow>
          create_alarm env
            (alarm_name_of application_name_tag_value application_type_tag_value instance_id
               (format_value env alarm))
            metric_name comparison_operator period threshold statistic ''AWS/EC2''
            [(''InstanceId'', instance_id)] (actions_enabled = PStr ''True'')
            (SNS_TOPIC_ARN env) alarm_description w)"

fun create_alarms_loop ::
  "'f env \<Rightarrow> pyval \<Rightarrow> string \<Rightarrow> string \<Rightarrow> string \<Rightarrow> string list \<Rightarrow> 'f world \<Rightarrow>
     (exn + unit) \<times> 'f world" where
  "create_alarms_loop env alarms app type instance_id [] w = (Inr (), w)"
| "create_alarms_loop env alarms app type instance_id (metric # metrics) w =
     (case create_alarm_for_metric env alarms app type instance_id metric w of
        (Inl e, w') \<Rightarrow> (Inl e, w')
      | (Inr u, w') \<Rightarrow> create_alarms_loop env alarms app type instance_id metrics w')"

text \<open>The launch branch, lines 118 to 147.\<close>

definition on_launch ::
  "'f env \<Rightarrow> string \<Rightarrow> string \<Rightarrow> string \<Rightarrow> 'f world \<Rightarrow> (exn + unit) \<times> 'f world" where
  "on_launch env application_name_tag_value application_type_tag_value instance_id w =
     (case get_alarms env application_name_tag_value application_type_tag_value
             (TABLE_NAME env) w of
        (r, w1) \<Rightarrow>
          (case bind_exn r (alarms_of_response (TABLE_NAME env)) of
             Inl e \<Rightarrow> (if is_Exception e then (Inl (SystemExit (- 1)), w1) else (Inl e, w1))
           | Inr alarms \<Rightarrow>
               (case iter_keys alarms of
                  Inl e \<Rightarrow> (Inl e, w1)
                | Inr metrics \<Rightarrow>
                    create_alarms_loop env alarms application_name_tag_value
                      application_type_tag_value instance_id metrics w1)))"

text \<open>The termination branch, lines 150 to 155.\<close>

definition on_terminate ::
  "'f env \<Rightarrow> string \<Rightarrow> string \<Rightarrow> string \<Rightarrow> 'f world \<Rightarrow> (exn + unit) \<times> 'f world" where
  "on_terminate env application_name_tag_value application_type_tag_value instance_id w =
     (case get_alarm_name env application_name_tag_value application_type_tag_value
             instance_id w of
        (Inl e, w1) \<Rightarrow> (Inl e, w1)
      | (Inr alarms_to_delete, w1) \<Rightarrow> delete_alarms env alarms_to_delete w1)"

text \<open>
  \<^verbatim>\<open>lambda_handler\<close> of cw\_alarm.py, lines 95 to 173. The dictionary comprehension of
  line 105 keeps the last value of a repeated key. The result \<open>Inr 200\<close> is the returned
  status code; \<^verbatim>\<open>sys.exit(0)\<close> is \<open>Inl (SystemExit 0)\<close>.
\<close>

definition lambda_handler :: "'f env \<Rightarrow> event \<Rightarrow> 'f world \<Rightarrow> (exn + int) \<times> 'f world" where
  "lambda_handler env ev w =
     (let instance_id = EC2InstanceId ev;
          lifecycle_hook_name = LifecycleHookName ev;
          autoscaling_group_name = AutoScalingGroupName ev;
          lifecycle_transition = LifecycleTransition ev
      in case instance_tags_of env instance_id of
           Inl e \<Rightarrow> (Inl e, w)
         | Inr None \<Rightarrow> (Inl TypeError, w)
         | Inr (Some tags) \<Rightarrow>
             (let instance_tags = map_of (rev tags) in
              case instance_tags ''application-name'' of
                None \<Rightarrow> (Inl (KeyError ''application-name''), w)
              | Some application_name_tag_value \<Rightarrow>
             (case instance_tags ''application-type'' of
                None \<Rightarrow> (Inl (KeyError ''application-type''), w)
              | Some application_type_tag_value \<Rightarrow>
                  (if instance_tags ''create-cloudwatch-alarm'' \<noteq> None then
                     (case (if lifecycle_transition = ''autoscaling:EC2_INSTANCE_LAUNCHING''
                            then on_launch env application_name_tag_value
                                   application_type_tag_value instance_id w
                            else if lifecycle_transition = ''autoscaling:EC2_INSTANCE_TERMINATING''
                            then on_terminate env application_name_tag_value
                                   application_type_tag_value instance_id w
                            else (Inr (), w)) of
                        (Inl e, w1) \<Rightarrow> (Inl e, w1)
                      | (Inr u, w1) \<Rightarrow>
                          (case complete_lifecycle_action env lifecycle_hook_name
                                  autoscaling_group_name ''CONTINUE'' instance_id w1 of
                             (Inl e, w2) \<Rightarrow> (Inl e, w2)
                           | (Inr u', w2) \<Rightarrow> (Inr 200, w2)))
                   else (Inl (SystemExit 0), w)))))"

section \<open>The definition-change handler (default\_alarms.py)\<close>

text \<open>
  An attribute value of a change record, in the store's typed notation: \<^verbatim>\<open>{'S': 'x'}\<close> is
  \<open>AttrS ''x''\<close>, \<^verbatim>\<open>{'M': {...}}\<close> is \<open>AttrM\<close> of its entries. Indexing such a value with
  another type's key is a KeyError.
\<close>

datatype attr =
    AttrS string
  | AttrN string
  | AttrBOOL bool
  | AttrNULL
  | AttrM "(string \<times> attr) list"
  | AttrL "attr list"

fun attr_S :: "attr \<Rightarrow> exn + string" where
  "attr_S (AttrS s) = Inr s"
| "attr_S _ = Inl (KeyError ''S'')"

fun attr_M :: "attr \<Rightarrow> exn + (string \<times> attr) list" where
  "attr_M (AttrM d) = Inr d"
| "attr_M _ = Inl (KeyError ''M'')"

text \<open>\<^verbatim>\<open>alarm_def['M'][k]['S']\<close>.\<close>

definition def_field :: "attr \<Rightarrow> string \<Rightarrow> exn + string" where
  "def_field alarm_def k =
     bind_exn (attr_M alarm_def) (\<lambda>d. bind_exn (dict_get d k) attr_S)"

text \<open>A list comprehension whose element expression may raise.\<close>

fun map_exn :: "('a \<Rightarrow> exn + 'b) \<Rightarrow> 'a list \<Rightarrow> exn + 'b list" where
  "map_exn f [] = Inr []"
| "map_exn f (x # xs) =
     bind_exn (f x) (\<lambda>y. bind_exn (map_exn f xs) (\<lambda>ys. Inr (y # ys)))"

text \<open>\<^verbatim>\<open>get_existing_alarms_for_asg\<close>, lines 82 to 85.\<close>

definition get_existing_alarms_for_asg ::
  "'f env \<Rightarrow> string \<Rightarrow> string \<Rightarrow> 'f world \<Rightarrow> (exn + 'f put_args list) \<times> 'f world" where
  "get_existing_alarms_for_asg env name type w = describe_alarms env (name @ ''-'' @ type) w"

text \<open>\<^verbatim>\<open>get_new_alarm_def\<close>, lines 88 to 92, on the values of \<^verbatim>\<open>new_alarms\<close>.\<close>

fun find_alarm_def :: "pyval \<Rightarrow> attr list \<Rightarrow> exn + attr option" where
  "find_alarm_def metric_name [] = Inr None"
| "find_alarm_def metric_name (alarm # alarms) =
     bind_exn (def_field alarm ''MetricName'') (\<lambda>m.
       if PStr m = metric_name then Inr (Some alarm)
       else find_alarm_def metric_name alarms)"

definition get_new_alarm_def :: "pyval \<Rightarrow> (string \<times> attr) list \<Rightarrow> exn + attr option" where
  "get_new_alarm_def metric_name new_alarms = find_alarm_def metric_name (map snd new_alarms)"

text \<open>\<^verbatim>\<open>delete_alarm\<close>, lines 95 to 99.\<close>

definition delete_alarm :: "'f env \<Rightarrow> string \<Rightarrow> 'f world \<Rightarrow> (exn + unit) \<times> 'f world" where
  "delete_alarm env metric_name w =
     (case delete_alarms env (Some [metric_name]) w of
        (Inl e, w') \<Rightarrow> (if is_Exception e then (Inr (), w') else (Inl e, w'))
      | (Inr u, w') \<Rightarrow> (Inr (), w'))"

text \<open>
  \<^verbatim>\<open>update_alarm\<close>, lines 102 to 130. Indexing None (no definition found) is a TypeError.
  Nothing here is inside a \<^verbatim>\<open>try\<close>.
\<close>

definition update_alarm ::
  "'f env \<Rightarrow> string \<Rightarrow> attr option \<Rightarrow> string \<Rightarrow> string \<Rightarrow> 'f world \<Rightarrow> (exn + unit) \<times> 'f world" where
  "update_alarm env instance_id alarm_def name type w =
     (case alarm_def of
        None \<Rightarrow> (Inl TypeError, w)
      | Some a \<Rightarrow>
     (case
        bind_exn (def_field a ''MetricName'') (\<lambda>metric_name.
        bind_exn (def_field a ''EvaluationPeriods'') (\<lambda>evaluation_periods.
        bind_exn (def_field a ''ComparisonOperator'') (\<lambda>comparison_operator.
        bind_exn (def_field a ''Statistic'') (\<lambda>statistic.
        bind_exn (def_field a ''Threshold'') (\<lambda>threshold.
        bind_exn (def_field a ''Period'') (\<lambda>period.
        bind_exn (py_float env (PStr threshold)) (\<lambda>th.
        bind_exn (py_int env (PStr period)) (\<lambda>p.
        bind_exn (py_int env (PStr evaluation_periods)) (\<lambda>ep.
          Inr \<lparr>AlarmName = alarm_name_of name type instance_id metric_name,
               AlarmDescription = None,
               MetricName = PStr metric_name,
               Namespace = ''AWS/EC2'',
               Dimensions = [(''InstanceId'', instance_id)],
               Period = p,
               EvaluationPeriods = ep,
               Threshold = th,
               ComparisonOperator = PStr comparison_operator,
               Statistic = PStr statistic,
               ActionsEnabled = None,
               AlarmActions = None\<rparr>)))))))))
      of
        Inl e \<Rightarrow> (Inl e, w)
      | Inr args \<Rightarrow> put_metric_alarm env args w))"

text \<open>\<^verbatim>\<open>create_alarm\<close> of default\_alarms.py, lines 133 to 161 (the other file has a
  function of the same name, hence the suffix here).\<close>

definition create_alarm_ddb ::
  "'f env \<Rightarrow> string \<Rightarrow> attr option \<Rightarrow> string \<Rightarrow> string \<Rightarrow> 'f world \<Rightarrow> (exn + unit) \<times> 'f world" where
  "create_alarm_ddb env instance_id alarm_def name type w =
     (case alarm_def of
        None \<Rightarrow> (Inl TypeError, w)
      | Some a \<Rightarrow>
     (case
        bind_exn (def_field a ''MetricName'') (\<lambda>metric_name.
        bind_exn (def_field a ''Threshold'') (\<lambda>threshold.
        bind_exn (def_field a ''Period'') (\<lambda>period.
        bind_exn (def_field a ''EvaluationPeriods'') (\<lambda>evaluation_periods.
        bind_exn (def_field a ''ComparisonOperator'') (\<lambda>comparison_operator.
        bind_exn (def_field a ''Statistic'') (\<lambda>statistic.
        bind_exn (py_float env (PStr threshold)) (\<lambda>th.
        bind_exn (py_int env (PStr period)) (\<lambda>p.
        bind_exn (py_int env (PStr evaluation_periods)) (\<lambda>ep.
          Inr \<lparr>AlarmName = alarm_name_of name type instance_id metric_name,
               AlarmDescription = None,
               MetricName = PStr metric_name,
               Namespace = ''AWS/EC2'',
               Dimensions = [(''InstanceId'', instance_id)],
               Period = p,
               EvaluationPeriods = ep,
               Threshold = th,
               ComparisonOperator = PStr comparison_operator,
               Statistic = PStr statistic,
               ActionsEnabled = None,
               AlarmActions = None\<rparr>)))))))))
      of
        Inl e \<Rightarrow> (Inl e, w)
      | Inr args \<Rightarrow> put_metric_alarm env args w))"

text \<open>The inner loop of lines 76 to 79, over \<^verbatim>\<open>new_metric_names\<close>.\<close>

fun create_missing ::
  "'f env \<Rightarrow> pyval list \<Rightarrow> (string \<times> attr) list \<Rightarrow> string \<Rightarrow> string \<Rightarrow> string \<Rightarrow>
     string list \<Rightarrow> 'f world \<Rightarrow> (exn + unit) \<times> 'f world" where
  "create_missing env existing_metric_names new_alarms instance_id name type [] w = (Inr (), w)"
| "create_missing env existing_metric_names new_alarms instance_id name type (m # ms) w =
     (if PStr m \<notin> set existing_metric_names then
        (case get_new_alarm_def (PStr m) new_alarms of
           Inl e \<Rightarrow> (Inl e, w)
         | Inr new_alarm \<Rightarrow>
             (case create_alarm_ddb env instance_id new_alarm name type w of
                (Inl e, w') \<Rightarrow> (Inl e, w')
              | (Inr u, w') \<Rightarrow>
                  create_missing env existing_metric_names new_alarms instance_id name type ms w'))
      else create_missing env existing_metric_names new_alarms instance_id name type ms w)"

text \<open>
  The loop of lines 56 to 79 over the existing alarms; \<open>existing_alarms\<close> is the whole
  list the service returned (line 64 reads the metric names of all of it), the list
  argument after \<open>type\<close> what is left to visit.
\<close>

fun reconcile_existing ::
  "'f env \<Rightarrow> 'f put_args list \<Rightarrow> (string \<times> attr) list \<Rightarrow> string list \<Rightarrow> string \<Rightarrow> string \<Rightarrow>
     'f put_args list \<Rightarrow> 'f world \<Rightarrow> (exn + unit) \<times> 'f world" where
  "reconcile_existing env existing_alarms new_alarms new_metric_names name type [] w = (Inr (), w)"
| "reconcile_existing env existing_alarms new_alarms new_metric_names name type
       (existing_alarm # rest) w =
     (let alarm_name = AlarmName existing_alarm;
          instance_id = decode_instance_id alarm_name;
          existing_metric_names = map MetricName existing_alarms;
          metric_name = MetricName existing_alarm
      in case (if metric_name \<in> set (map PStr new_metric_names) then
                 (case get_new_alarm_def metric_name new_alarms of
                    Inl e \<Rightarrow> (Inl e, w)
                  | Inr new_alarm \<Rightarrow> update_alarm env instance_id new_alarm name type w)
               else delete_alarm env (AlarmName existing_alarm) w) of
           (Inl e, w1) \<Rightarrow> (Inl e, w1)
         | (Inr u, w1) \<Rightarrow>
             (case create_missing env existing_metric_names new_alarms instance_id name type
                     new_metric_names w1 of
                (Inl e, w2) \<Rightarrow> (Inl e, w2)
              | (Inr u', w2) \<Rightarrow>
                  reconcile_existing env existing_alarms new_alarms new_metric_names name type
                    rest w2))"

text \<open>
  The body of the loop over the change records, lines 46 to 79. A record is its
  \<^verbatim>\<open>NewImage\<close> when it has one; \<^verbatim>\<open>.get('NewImage', {})\<close> makes a missing one empty.
\<close>

definition handle_record ::
  "'f env \<Rightarrow> (string \<times> attr) list option \<Rightarrow> 'f world \<Rightarrow> (exn + unit) \<times> 'f world" where
  "handle_record env record_image w =
     (let new_image = (case record_image of None \<Rightarrow> [] | Some d \<Rightarrow> d) in
      case
        bind_exn (bind_exn (dict_get new_image ''Name'') attr_S) (\<lambda>name.
        bind_exn (bind_exn (dict_get new_image ''Type'') attr_S) (\<lambda>type.
        bind_exn (bind_exn (dict_get new_image ''Alarms'') attr_M) (\<lambda>new_alarms.
        bind_exn (map_exn (\<lambda>a. def_field a ''MetricName'') (map snd new_alarms))
          (\<lambda>new_metric_names. Inr (name, type, new_alarms, new_metric_names)))))
      of
        Inl e \<Rightarrow> (Inl e, w)
      | Inr (name, type, new_alarms, new_metric_names) \<Rightarrow>
          (case get_existing_alarms_for_asg env name type w of
             (Inl e, w1) \<Rightarrow> (Inl e, w1)
           | (Inr existing_alarms, w1) \<Rightarrow>
               reconcile_existing env existing_alarms new_alarms new_metric_names name type
                 existing_alarms w1))"

text \<open>\<^verbatim>\<open>handle_cloudwatch_alarms\<close>, lines 40 to 79, on the list \<^verbatim>\<open>event.get('Records', [])\<close>.\<close>

fun handle_cloudwatch_alarms ::
  "'f env \<Rightarrow> (string \<times> attr) list option list \<Rightarrow> 'f world \<Rightarrow> (exn + unit) \<times> 'f world" where
  "handle_cloudwatch_alarms env [] w = (Inr (), w)"
| "handle_cloudwatch_alarms env (r # records) w =
     (case handle_record env r w of
        (Inl e, w') \<Rightarrow> (Inl e, w')
      | (Inr u, w') \<Rightarrow> handle_cloudwatch_alarms env records w')"

section \<open>A concrete environment for the scenarios\<close>

text \<open>
  The scenarios below run the handlers in an environment whose floats are written as
  integers, and whose conversions are Python's on the arguments they meet there: a
  number, a boolean, or a string of decimal digits.
\<close>

fun digits_value :: "string \<Rightarrow> nat \<Rightarrow> nat option" where
  "digits_value [] acc = Some acc"
| "digits_value (c # cs) acc =
     (let d = (of_char c :: nat) in
      if 48 \<le> d \<and> d \<le> 57 then digits_value cs (10 * acc + (d - 48)) else None)"

definition scenario_int :: "pyval \<Rightarrow> exn + int" where
  "scenario_int v =
     (case v of
        PNum n \<Rightarrow> Inr n
      | PBool b \<Rightarrow> Inr (if b then 1 else 0)
      | PStr s \<Rightarrow>
          (if s = [] then Inl ValueError
           else (case digits_value s 0 of None \<Rightarrow> Inl ValueError | Some n \<Rightarrow> Inr (int n)))
      | _ \<Rightarrow> Inl TypeError)"

definition scenario_env ::
  "(string \<times> string) list \<Rightarrow> (string \<times> pyval) list list \<Rightarrow>
     (int call list \<Rightarrow> int call \<Rightarrow> exn option) \<Rightarrow> int env" where
  "scenario_env tags items failing =
     \<lparr>TABLE_NAME = ''alarm-table'',
      SNS_TOPIC_ARN = ''arn:aws:sns:topic'',
      instance_tags_of = (\<lambda>i. Inr (Some tags)),
      batch_get_item = (\<lambda>table name type. Inr [(table, items)]),
      raises = failing,
      py_float = scenario_int,
      py_int = scenario_int,
      py_str = (\<lambda>v. ''<value>'')\<rparr>"

definition no_failure :: "'f call list \<Rightarrow> 'f call \<Rightarrow> exn option" where
  "no_failure history c = None"

definition empty_world :: "int world" where
  "empty_world = \<lparr>cw_alarms = [], trace = []\<rparr>"

definition web_prod_tags :: "(string \<times> string) list" where
  "web_prod_tags =
     [(''application-name'', ''web''), (''application-type'', ''prod''),
      (''create-cloudwatch-alarm'', ''true'')]"

definition launch_event :: "string \<Rightarrow> event" where
  "launch_event instance_id =
     \<lparr>EC2InstanceId = instance_id, LifecycleHookName = ''launch-hook'',
      AutoScalingGroupName = ''asg'',
      LifecycleTransition = ''autoscaling:EC2_INSTANCE_LAUNCHING''\<rparr>"

definition terminate_event :: "string \<Rightarrow> event" where
  "terminate_event instance_id =
     \<lparr>EC2InstanceId = instance_id, LifecycleHookName = ''terminate-hook'',
      AutoScalingGroupName = ''asg'',
      LifecycleTransition = ''autoscaling:EC2_INSTANCE_TERMINATING''\<rparr>"

text \<open>An alarm as the launch path puts it, for a name, a metric and a threshold.\<close>

definition launched_alarm :: "string \<Rightarrow> string \<Rightarrow> int \<Rightarrow> int put_args" where
  "launched_alarm alarm_name metric th =
     \<lparr>AlarmName = alarm_name,
      AlarmDescription = Some (PStr ''description''),
      MetricName = PStr metric,
      Namespace = ''AWS/EC2'',
      Dimensions = [(''InstanceId'', decode_instance_id alarm_name)],
      Period = 300,
      EvaluationPeriods = 1,
      Threshold = th,
      ComparisonOperator = PStr ''GreaterThanThreshold'',
      Statistic = PStr ''Average'',
      ActionsEnabled = Some True,
      AlarmActions = Some [''arn:aws:sns:topic'']\<rparr>"

text \<open>An alarm as the definition-change path puts it.\<close>

definition reconciled_alarm :: "string \<Rightarrow> string \<Rightarrow> int \<Rightarrow> int put_args" where
  "reconciled_alarm alarm_name metric th =
     \<lparr>AlarmName = alarm_name,
      AlarmDescription = None,
      MetricName = PStr metric,
      Namespace = ''AWS/EC2'',
      Dimensions = [(''InstanceId'', decode_instance_id alarm_name)],
      Period = 300,
      EvaluationPeriods = 1,
      Threshold = th,
      ComparisonOperator = PStr ''GreaterThanThreshold'',
      Statistic = PStr ''Average'',
      ActionsEnabled = None,
      AlarmActions = None\<rparr>"

text \<open>One alarm definition of a change record, and a change record for \<open>web\<close>/\<open>prod\<close>.\<close>

definition stream_def :: "string \<Rightarrow> string \<Rightarrow> attr" where
  "stream_def metric th =
     AttrM [(''MetricName'', AttrS metric),
            (''EvaluationPeriods'', AttrS ''1''),
            (''ComparisonOperator'', AttrS ''GreaterThanThreshold''),
            (''Statistic'', AttrS ''Average''),
            (''Threshold'', AttrS th),
            (''Period'', AttrS ''300'')]"

definition change_record :: "(string \<times> attr) list \<Rightarrow> (string \<times> attr) list option" where
  "change_record new_alarms =
     Some [(''Name'', AttrS ''web''), (''Type'', AttrS ''prod''), (''Alarms'', AttrM new_alarms)]"

text \<open>The definition of the launch scenario: the given fields after \<open>naming\<close> (the
  \<open>AlarmName\<close> and \<open>AlarmDescription\<close> entries, when there are any), with the given value
  of \<open>ActionsEnabled\<close>.\<close>

definition scenario_definition :: "(string \<times> pyval) list \<Rightarrow> pyval \<Rightarrow> pyval" where
  "scenario_definition naming actions_enabled =
     PDict (naming @
       [(''MetricName'', PStr ''CPUUtilization''),
        (''Threshold'', PNum 80),
        (''Period'', PNum 300),
        (''Statistic'', PStr ''Average''),
        (''ComparisonOperator'', PStr ''GreaterThanThreshold''),
        (''ActionsEnabled'', actions_enabled)])"

text \<open>The same with both naming entries and the string \<open>True\<close>, written out.\<close>

definition cpu_launch_def :: pyval where
  "cpu_launch_def = PDict [(''AlarmName'', PStr ''CPUUtilization''),
      (''AlarmDescription'', PStr ''description''),
      (''MetricName'', PStr ''CPUUtilization''),
      (''Threshold'', PNum 80), (''Period'', PNum 300),
      (''Statistic'', PStr ''Average''),
      (''ComparisonOperator'', PStr ''GreaterThanThreshold''),
      (''ActionsEnabled'', PStr ''True'')]"

text \<open>A monitoring service that refuses every put of one alarm name.\<close>

definition put_fails_for :: "string \<Rightarrow> 'f call list \<Rightarrow> 'f call \<Rightarrow> exn option" where
  "put_fails_for alarm_name history c =
     (case c of
        PutMetricAlarm a \<Rightarrow> (if AlarmName a = alarm_name then Some ClientError else None)
      | _ \<Rightarrow> None)"

section \<open>Calls added by a run\<close>

text \<open>
  \<open>extends_with P w w'\<close>: the calls of \<open>w'\<close> are those of \<open>w\<close> followed by calls that all
  satisfy \<open>P\<close>. \<open>bare_put\<close> holds of a put without actions, actions flag and description,
  \<open>notifying_put topic\<close> of a put that carries all three, the actions being the topic.
\<close>

definition extends_with :: "('f call \<Rightarrow> bool) \<Rightarrow> 'f world \<Rightarrow> 'f world \<Rightarrow> bool" where
  "extends_with P w w' \<longleftrightarrow> (\<exists>cs. trace w' = trace w @ cs \<and> list_all P cs)"

fun bare_put :: "'f call \<Rightarrow> bool" where
  "bare_put (PutMetricAlarm a) \<longleftrightarrow>
     AlarmActions a = None \<and> ActionsEnabled a = None \<and> AlarmDescription a = None"
| "bare_put _ \<longleftrightarrow> True"

fun notifying_put :: "string \<Rightarrow> 'f call \<Rightarrow> bool" where
  "notifying_put topic (PutMetricAlarm a) \<longleftrightarrow>
     AlarmActions a = Some [topic] \<and> ActionsEnabled a \<noteq> None \<and> AlarmDescription a \<noteq> None"
| "notifying_put topic _ \<longleftrightarrow> True"

section \<open>Properties of the naming scheme\<close>

lemma split_str_nonempty: "split_str c s \<noteq> []"
  by (induction s) (auto split: list.splits)

lemma split_str_no_sep: "c \<notin> set s \<Longrightarrow> split_str c s = [s]"
  by (induction s) auto

lemma split_str_append_sep:
  "split_str c (a @ c # b) = split_str c a @ split_str c b"
proof (induction a)
  case Nil
  show ?case by simp
next
  case (Cons x a)
  obtain w ws where ws: "split_str c a = w # ws"
    using split_str_nonempty [of c a] by (cases "split_str c a") auto
  with Cons show ?case by simp
qed

lemma join_split_str: "join_str [c] (split_str c s) = s"
proof (induction s)
  case Nil
  show ?case by simp
next
  case (Cons x s)
  obtain w ws where ws: "split_str c s = w # ws"
    using split_str_nonempty [of c s] by (cases "split_str c s") auto
  show ?case
  proof (cases "x = c")
    case True
    with Cons ws show ?thesis by simp
  next
    case False
    with Cons ws show ?thesis by (cases ws) auto
  qed
qed

lemma split_alarm_name:
  assumes "CHR ''-'' \<notin> set name" and "CHR ''-'' \<notin> set type" and "CHR ''-'' \<notin> set sfx"
  shows "split_str CHR ''-'' (alarm_name_of name type instance_id sfx) =
           [name, type] @ split_str CHR ''-'' instance_id @ [sfx]"
proof -
  have "alarm_name_of name type instance_id sfx =
          name @ CHR ''-'' # (type @ CHR ''-'' # (instance_id @ CHR ''-'' # sfx))"
    by (simp add: alarm_name_of_def)
  then show ?thesis
    using assms by (simp add: split_str_append_sep split_str_no_sep)
qed

text \<open>
  Claim C4. For every application name, application type and suffix without a hyphen, and
  every instance id (hyphens allowed), decoding the instance id from the encoded alarm
  name \<open>name-type-instance_id-suffix\<close> (everything between the second and the last
  hyphen-delimited segment) gives back exactly the instance id.
\<close>

theorem decode_instance_id_roundtrip:
  assumes "CHR ''-'' \<notin> set name" and "CHR ''-'' \<notin> set type" and "CHR ''-'' \<notin> set sfx"
  shows "decode_instance_id (alarm_name_of name type instance_id sfx) = instance_id"
proof -
  let ?parts = "split_str CHR ''-'' (alarm_name_of name type instance_id sfx)"
  have parts: "?parts = [name, type] @ split_str CHR ''-'' instance_id @ [sfx]"
    using assms by (rule split_alarm_name)
  have "slice_2_to_last ?parts = split_str CHR ''-'' instance_id"
    unfolding parts slice_2_to_last_def by simp
  then show ?thesis
    unfolding decode_instance_id_def using join_split_str [of "CHR ''-''" instance_id]
    by simp
qed

theorem decode_instance_id_roundtrip_witness:
  "CHR ''-'' \<notin> set ''web'' \<and> CHR ''-'' \<notin> set ''prod'' \<and> CHR ''-'' \<notin> set ''CPUUtilization''
   \<and> alarm_name_of ''web'' ''prod'' ''i-123'' ''CPUUtilization'' = ''web-prod-i-123-CPUUtilization''
   \<and> decode_instance_id ''web-prod-i-123-CPUUtilization'' = ''i-123''"
proof -
  have h1: "CHR ''-'' \<notin> set ''web''" by simp
  have h2: "CHR ''-'' \<notin> set ''prod''" by simp
  have h3: "CHR ''-'' \<notin> set ''CPUUtilization''" by simp
  have enc: "alarm_name_of ''web'' ''prod'' ''i-123'' ''CPUUtilization'' = ''web-prod-i-123-CPUUtilization''"
    by (simp add: alarm_name_of_def)
  from decode_instance_id_roundtrip [OF h1 h2 h3, of "''i-123''"] enc h1 h2 h3
  show ?thesis by simp
qed

section \<open>Properties of the lifecycle handler\<close>

lemma tags_lookup_None: "map_of (rev tags) k = None \<longleftrightarrow> k \<notin> fst ` set tags"
  by (simp add: map_of_eq_None_iff)

text \<open>
  Claim C9. The handler reads the \<open>application-name\<close> and \<open>application-type\<close> tags before
  it looks for the \<open>create-cloudwatch-alarm\<close> tag: for every lifecycle event (launch or
  terminate, whatever the transition) whose instance lacks either of the two tags, it
  raises a KeyError for the first missing one, which nothing catches. It does not skip
  with \<^verbatim>\<open>sys.exit(0)\<close> and makes no call at all, so the lifecycle action is not completed;
  whether the applicability tag is there plays no part.
\<close>

theorem missing_application_tag_raises_KeyError:
  assumes "instance_tags_of env (EC2InstanceId ev) = Inr (Some tags)"
    and "''application-name'' \<notin> fst ` set tags \<or> ''application-type'' \<notin> fst ` set tags"
  shows "lambda_handler env ev w =
           (Inl (KeyError (if ''application-name'' \<notin> fst ` set tags
                           then ''application-name'' else ''application-type'')), w)"
proof (cases "''application-name'' \<in> fst ` set tags")
  case False
  then have "map_of (rev tags) ''application-name'' = None"
    by (simp only: tags_lookup_None not_False_eq_True)
  with assms(1) False show ?thesis
    by (simp add: lambda_handler_def)
next
  case True
  then obtain app where app: "map_of (rev tags) ''application-name'' = Some app"
    using tags_lookup_None [of tags "''application-name''"] by (cases "map_of (rev tags) ''application-name''") auto
  from True assms(2) have "map_of (rev tags) ''application-type'' = None"
    by (simp only: tags_lookup_None) simp
  with assms(1) True app show ?thesis
    by (simp add: lambda_handler_def)
qed

theorem missing_application_tag_raises_KeyError_witness:
  "lambda_handler (scenario_env [(''application-name'', ''web'')] [] no_failure)
     (launch_event ''i-123'') empty_world = (Inl (KeyError ''application-type''), empty_world)
   \<and> lambda_handler (scenario_env [(''application-type'', ''prod'')] [] no_failure)
     (terminate_event ''i-123'') empty_world = (Inl (KeyError ''application-name''), empty_world)"
  using missing_application_tag_raises_KeyError
          [of "scenario_env [(''application-name'', ''web'')] [] no_failure"
              "launch_event ''i-123''" "[(''application-name'', ''web'')]" empty_world]
        missing_application_tag_raises_KeyError
          [of "scenario_env [(''application-type'', ''prod'')] [] no_failure"
              "terminate_event ''i-123''" "[(''application-type'', ''prod'')]" empty_world]
  by (simp add: scenario_env_def)

text \<open>
  Claim C8. For every lifecycle event whose instance carries the application-name and
  application-type tags but not the \<open>create-cloudwatch-alarm\<close> tag, the handler leaves by
  \<^verbatim>\<open>sys.exit(0)\<close> with the outside state as it was: the list of calls is unchanged (no
  read of the definition store, no alarm put, list or delete, no lifecycle completion)
  and so are the alarms.
\<close>

theorem untagged_instance_is_skipped:
  assumes "instance_tags_of env (EC2InstanceId ev) = Inr (Some tags)"
    and "''application-name'' \<in> fst ` set tags"
    and "''application-type'' \<in> fst ` set tags"
    and "''create-cloudwatch-alarm'' \<notin> fst ` set tags"
  shows "lambda_handler env ev w = (Inl (SystemExit 0), w)"
proof -
  obtain app where app: "map_of (rev tags) ''application-name'' = Some app"
    using assms(2) tags_lookup_None [of tags "''application-name''"]
    by (cases "map_of (rev tags) ''application-name''") auto
  obtain ty where ty: "map_of (rev tags) ''application-type'' = Some ty"
    using assms(3) tags_lookup_None [of tags "''application-type''"]
    by (cases "map_of (rev tags) ''application-type''") auto
  have "map_of (rev tags) ''create-cloudwatch-alarm'' = None"
    using assms(4) by (simp only: tags_lookup_None) simp
  with assms(1) app ty show ?thesis
    by (simp add: lambda_handler_def)
qed

theorem untagged_instance_is_skipped_witness:
  "lambda_handler
     (scenario_env [(''application-name'', ''web''), (''application-type'', ''prod'')] [] no_failure)
     (launch_event ''i-123'') empty_world = (Inl (SystemExit 0), empty_world)"
  using untagged_instance_is_skipped
          [of "scenario_env [(''application-name'', ''web''), (''application-type'', ''prod'')] [] no_failure"
              "launch_event ''i-123''"
              "[(''application-name'', ''web''), (''application-type'', ''prod'')]" empty_world]
  by (simp add: scenario_env_def)

text \<open>
  Claim C7, as amended. On a launch event for a tagged instance, if the lookup of line
  121 raises (the store call fails, the answer holds no record for the key, or the
  record has no \<open>Alarms\<close> attribute), the invocation ends with \<^verbatim>\<open>sys.exit(-1)\<close>: the only
  call made is the store read, so no alarm is created and the lifecycle completion is
  never sent.
\<close>

theorem launch_lookup_failure_is_fatal:
  assumes "instance_tags_of env (EC2InstanceId ev) = Inr (Some tags)"
    and "map_of (rev tags) ''application-name'' = Some app"
    and "map_of (rev tags) ''application-type'' = Some ty"
    and "''create-cloudwatch-alarm'' \<in> fst ` set tags"
    and "LifecycleTransition ev = ''autoscaling:EC2_INSTANCE_LAUNCHING''"
    and "bind_exn (batch_get_item env (TABLE_NAME env) app ty)
           (alarms_of_response (TABLE_NAME env)) = Inl e"
    and "is_Exception e"
  shows "lambda_handler env ev w =
           (Inl (SystemExit (- 1)),
            \<lparr>cw_alarms = cw_alarms w,
             trace = trace w @ [BatchGetItem (TABLE_NAME env) app ty]\<rparr>)"
proof -
  have tag: "map_of (rev tags) ''create-cloudwatch-alarm'' \<noteq> None"
    using assms(4) tags_lookup_None [of tags "''create-cloudwatch-alarm''"] by blast
  have "on_launch env app ty (EC2InstanceId ev) w =
          (Inl (SystemExit (- 1)), record_call (BatchGetItem (TABLE_NAME env) app ty) w)"
    using assms(6,7) by (simp add: on_launch_def get_alarms_def)
  with assms(1,2,3,5) tag show ?thesis
    by (simp add: lambda_handler_def record_call_def)
qed

theorem launch_lookup_failure_is_fatal_witness:
  "lambda_handler ((scenario_env web_prod_tags [] no_failure)
        \<lparr>batch_get_item := (\<lambda>table name type. Inl ClientError)\<rparr>)
     (launch_event ''i-123'') empty_world =
     (Inl (SystemExit (- 1)),
      \<lparr>cw_alarms = [], trace = [BatchGetItem ''alarm-table'' ''web'' ''prod'']\<rparr>)
   \<and> lambda_handler (scenario_env web_prod_tags [] no_failure)
     (launch_event ''i-123'') empty_world =
     (Inl (SystemExit (- 1)),
      \<lparr>cw_alarms = [], trace = [BatchGetItem ''alarm-table'' ''web'' ''prod'']\<rparr>)
   \<and> lambda_handler (scenario_env web_prod_tags [[(''Name'', PStr ''web'')]] no_failure)
     (launch_event ''i-123'') empty_world =
     (Inl (SystemExit (- 1)),
      \<lparr>cw_alarms = [], trace = [BatchGetItem ''alarm-table'' ''web'' ''prod'']\<rparr>)"
  using launch_lookup_failure_is_fatal
          [of "(scenario_env web_prod_tags [] no_failure)
                 \<lparr>batch_get_item := (\<lambda>table name type. Inl ClientError)\<rparr>"
              "launch_event ''i-123''" web_prod_tags "''web''" "''prod''" ClientError empty_world]
        launch_lookup_failure_is_fatal
          [of "scenario_env web_prod_tags [] no_failure"
              "launch_event ''i-123''" web_prod_tags "''web''" "''prod''" IndexError empty_world]
        launch_lookup_failure_is_fatal
          [of "scenario_env web_prod_tags [[(''Name'', PStr ''web'')]] no_failure"
              "launch_event ''i-123''" web_prod_tags "''web''" "''prod''" "KeyError ''Alarms''" empty_world]
  by (simp add: scenario_env_def web_prod_tags_def launch_event_def empty_world_def
      bind_exn_def alarms_of_response_def dict_get_def)

text \<open>
  The claim as first stated covers every malformed record. The \<^verbatim>\<open>try\<close> of lines 120 to
  125 guards the lookup only; the fields of a definition are read after it, in the loop.
  A record whose second definition lacks \<open>AlarmName\<close> has the alarm of the first one
  created before the KeyError, and a record whose \<open>Alarms\<close> is the empty string has no
  definition to visit, so the lifecycle action is completed.
\<close>

theorem launch_with_malformed_definition_not_fatal:
  "lambda_handler
     (scenario_env web_prod_tags
        [[(''Alarms'', PDict [(''cpu'', cpu_launch_def),
                              (''mem'', PDict [(''MetricName'', PStr ''MemoryUtilization'')])])]]
        no_failure)
     (launch_event ''i-123'') empty_world =
   (Inl (KeyError ''AlarmName''),
    \<lparr>cw_alarms = [launched_alarm ''web-prod-i-123-CPUUtilization'' ''CPUUtilization'' 80],
     trace = [BatchGetItem ''alarm-table'' ''web'' ''prod'',
              PutMetricAlarm (launched_alarm ''web-prod-i-123-CPUUtilization'' ''CPUUtilization'' 80)]\<rparr>)
   \<and> lambda_handler
     (scenario_env web_prod_tags [[(''Alarms'', PStr '''')]] no_failure)
     (launch_event ''i-123'') empty_world =
   (Inr 200,
    \<lparr>cw_alarms = [],
     trace = [BatchGetItem ''alarm-table'' ''web'' ''prod'',
              CompleteLifecycleAction ''launch-hook'' ''asg'' ''CONTINUE'' ''i-123'']\<rparr>)"
  by (simp add: scenario_env_def web_prod_tags_def launch_event_def no_failure_def
      empty_world_def launched_alarm_def scenario_int_def cpu_launch_def_def
      lambda_handler_def on_launch_def get_alarms_def alarms_of_response_def
      create_alarm_for_metric_def create_alarm_def alarm_field_def format_value_def
      alarm_name_of_def bind_exn_def dict_get_def put_metric_alarm_def
      complete_lifecycle_action_def record_call_def Let_def
      decode_instance_id_def slice_2_to_last_def)

lemma delete_listed_names:
  "filter (\<lambda>a. AlarmName a \<notin> AlarmName ` {x \<in> set xs. Q (AlarmName x)}) xs =
     filter (\<lambda>a. \<not> Q (AlarmName a)) xs"
  by (rule filter_cong) auto

lemma on_terminate_no_failure:
  assumes "\<forall>h c. raises env h c = None"
  shows "on_terminate env app ty iid w =
          (Inr (),
           \<lparr>cw_alarms = filter (\<lambda>a. \<not> prefix (app @ ''-'' @ ty @ ''-'' @ iid) (AlarmName a)) (cw_alarms w),
            trace = trace w @
              [DescribeAlarms (app @ ''-'' @ ty @ ''-'' @ iid),
               DeleteAlarms (Some (map AlarmName
                 (filter (\<lambda>a. prefix (app @ ''-'' @ ty @ ''-'' @ iid) (AlarmName a)) (cw_alarms w))))]\<rparr>)"
  using assms
  by (cases w)
     (simp add: on_terminate_def get_alarm_name_def describe_alarms_def delete_alarms_def
        record_call_def delete_listed_names Let_def)

text \<open>
  Claim C6, as amended. On a terminate event for a tagged instance, when no call to the
  services fails, the alarms deleted are exactly those whose name starts with
  \<open>{appName}-{appType}-{instanceId}\<close>: the handler lists them, deletes the listed names in
  one call, every alarm whose name does not start with the prefix is kept, and the
  lifecycle action is then completed with result CONTINUE.
\<close>

theorem terminate_deletes_exactly_prefixed:
  assumes "instance_tags_of env (EC2InstanceId ev) = Inr (Some tags)"
    and "map_of (rev tags) ''application-name'' = Some app"
    and "map_of (rev tags) ''application-type'' = Some ty"
    and "''create-cloudwatch-alarm'' \<in> fst ` set tags"
    and "LifecycleTransition ev = ''autoscaling:EC2_INSTANCE_TERMINATING''"
    and "\<forall>h c. raises env h c = None"
    and "p = app @ ''-'' @ ty @ ''-'' @ EC2InstanceId ev"
  shows "lambda_handler env ev w =
           (Inr 200,
            \<lparr>cw_alarms = filter (\<lambda>a. \<not> prefix p (AlarmName a)) (cw_alarms w),
             trace = trace w @
               [DescribeAlarms p,
                DeleteAlarms (Some (map AlarmName (filter (\<lambda>a. prefix p (AlarmName a)) (cw_alarms w)))),
                CompleteLifecycleAction (LifecycleHookName ev) (AutoScalingGroupName ev)
                  ''CONTINUE'' (EC2InstanceId ev)]\<rparr>)"
proof -
  have tag: "map_of (rev tags) ''create-cloudwatch-alarm'' \<noteq> None"
    using assms(4) tags_lookup_None [of tags "''create-cloudwatch-alarm''"] by blast
  show ?thesis
    unfolding assms(7)
    using assms(1,2,3,5,6) tag
    by (simp add: lambda_handler_def on_terminate_no_failure [OF assms(6)]
        complete_lifecycle_action_def record_call_def Let_def)
qed

theorem terminate_deletes_exactly_prefixed_witness:
  "lambda_handler (scenario_env web_prod_tags [] no_failure) (terminate_event ''i-123'')
     \<lparr>cw_alarms = [launched_alarm ''web-prod-i-123-CPUUtilization'' ''CPUUtilization'' 80,
                   launched_alarm ''web-prod-i-456-CPUUtilization'' ''CPUUtilization'' 80,
                   launched_alarm ''web-prod-i-123-StatusCheckFailed'' ''StatusCheckFailed'' 1],
      trace = []\<rparr> =
     (Inr 200,
      \<lparr>cw_alarms = [launched_alarm ''web-prod-i-456-CPUUtilization'' ''CPUUtilization'' 80],
       trace = [DescribeAlarms ''web-prod-i-123'',
                DeleteAlarms (Some [''web-prod-i-123-CPUUtilization'',
                                    ''web-prod-i-123-StatusCheckFailed'']),
                CompleteLifecycleAction ''terminate-hook'' ''asg'' ''CONTINUE'' ''i-123'']\<rparr>)"
  using terminate_deletes_exactly_prefixed
          [of "scenario_env web_prod_tags [] no_failure" "terminate_event ''i-123''"
              web_prod_tags "''web''" "''prod''" "''web-prod-i-123''"
              "\<lparr>cw_alarms = [launched_alarm ''web-prod-i-123-CPUUtilization'' ''CPUUtilization'' 80,
                   launched_alarm ''web-prod-i-456-CPUUtilization'' ''CPUUtilization'' 80,
                   launched_alarm ''web-prod-i-123-StatusCheckFailed'' ''StatusCheckFailed'' 1],
                trace = []\<rparr>"]
  by (simp add: scenario_env_def web_prod_tags_def terminate_event_def no_failure_def
      launched_alarm_def)

text \<open>
  The claim as first stated also says that no alarm of another instance is deleted. The
  prefix has no closing hyphen, so the alarms of an instance whose id extends the
  terminating one's are deleted with it: terminating \<open>i-123\<close> deletes the alarm of
  \<open>i-1234\<close>.
\<close>

theorem terminate_deletes_alarm_of_other_instance:
  "decode_instance_id ''web-prod-i-1234-CPUUtilization'' = ''i-1234''
   \<and> lambda_handler (scenario_env web_prod_tags [] no_failure) (terminate_event ''i-123'')
        \<lparr>cw_alarms = [launched_alarm ''web-prod-i-123-CPUUtilization'' ''CPUUtilization'' 80,
                      launched_alarm ''web-prod-i-1234-CPUUtilization'' ''CPUUtilization'' 80],
         trace = []\<rparr> =
       (Inr 200,
        \<lparr>cw_alarms = [],
         trace = [DescribeAlarms ''web-prod-i-123'',
                  DeleteAlarms (Some [''web-prod-i-123-CPUUtilization'',
                                      ''web-prod-i-1234-CPUUtilization'']),
                  CompleteLifecycleAction ''terminate-hook'' ''asg'' ''CONTINUE'' ''i-123'']\<rparr>)"
  by (simp add: decode_instance_id_def slice_2_to_last_def
      scenario_env_def web_prod_tags_def terminate_event_def no_failure_def
      launched_alarm_def lambda_handler_def on_terminate_def get_alarm_name_def
      describe_alarms_def delete_alarms_def complete_lifecycle_action_def record_call_def Let_def)

section \<open>The scenarios, evaluated\<close>

lemmas scenario_defs =
  scenario_env_def web_prod_tags_def launch_event_def terminate_event_def no_failure_def
  empty_world_def launched_alarm_def reconciled_alarm_def stream_def_def change_record_def
  scenario_int_def

lemmas lifecycle_defs =
  lambda_handler_def on_launch_def on_terminate_def get_alarms_def alarms_of_response_def
  create_alarm_for_metric_def create_alarm_def alarm_field_def format_value_def
  get_alarm_name_def alarm_name_of_def bind_exn_def dict_get_def
  put_metric_alarm_def describe_alarms_def delete_alarms_def complete_lifecycle_action_def
  record_call_def Let_def

lemmas reconciler_defs =
  handle_record_def get_existing_alarms_for_asg_def get_new_alarm_def_def delete_alarm_def
  update_alarm_def create_alarm_ddb_def def_field_def alarm_name_of_def
  decode_instance_id_def slice_2_to_last_def bind_exn_def dict_get_def
  put_metric_alarm_def describe_alarms_def delete_alarms_def record_call_def Let_def

lemma run_launch:
  "lambda_handler (scenario_env web_prod_tags [[(''Alarms'', PDict [(''cpu'', cpu_launch_def)])]] no_failure)
     (launch_event ''i-123'') empty_world =
   (Inr 200,
    \<lparr>cw_alarms = [launched_alarm ''web-prod-i-123-CPUUtilization'' ''CPUUtilization'' 80],
     trace = [BatchGetItem ''alarm-table'' ''web'' ''prod'',
              PutMetricAlarm (launched_alarm ''web-prod-i-123-CPUUtilization'' ''CPUUtilization'' 80),
              CompleteLifecycleAction ''launch-hook'' ''asg'' ''CONTINUE'' ''i-123'']\<rparr>)"
  by (simp add: scenario_defs lifecycle_defs cpu_launch_def_def decode_instance_id_def slice_2_to_last_def)

lemma run_reconcile:
  "handle_cloudwatch_alarms (scenario_env [] [] no_failure)
     [change_record [(''cpu'', stream_def ''CPUUtilization'' ''90''),
                     (''mem'', stream_def ''MemoryUtilization'' ''70'')]]
     \<lparr>cw_alarms = [launched_alarm ''web-prod-i-1-CPUUtilization'' ''CPUUtilization'' 80], trace = []\<rparr> =
   (Inr (),
    \<lparr>cw_alarms = [reconciled_alarm ''web-prod-i-1-CPUUtilization'' ''CPUUtilization'' 90,
                  reconciled_alarm ''web-prod-i-1-MemoryUtilization'' ''MemoryUtilization'' 70],
     trace = [DescribeAlarms ''web-prod'',
              PutMetricAlarm (reconciled_alarm ''web-prod-i-1-CPUUtilization'' ''CPUUtilization'' 90),
              PutMetricAlarm (reconciled_alarm ''web-prod-i-1-MemoryUtilization'' ''MemoryUtilization'' 70)]\<rparr>)"
  by (simp add: scenario_defs reconciler_defs)

text \<open>
  Claim C5, as amended. On a launch event for instance \<open>i-123\<close> tagged application-name
  \<open>web\<close>, application-type \<open>prod\<close> and \<open>create-cloudwatch-alarm\<close>, given the definitions
  \<open>{cpu: {AlarmName: "CPUUtilization", AlarmDescription: d, MetricName: "CPUUtilization",
  Threshold: 80, Period: 300, Statistic: "Average", ComparisonOperator:
  "GreaterThanThreshold", ActionsEnabled: "True"}}\<close> (the flag being the string) and no
  failing call, exactly one alarm is put. It is named \<open>web-prod-i-123-CPUUtilization\<close>, the
  suffix being the definition's \<open>AlarmName\<close>, and carries threshold \<open>float(80)\<close>, period 300,
  statistic Average, comparison GreaterThanThreshold and actions enabled, with the
  description, one evaluation period, the namespace \<open>AWS/EC2\<close>, the instance dimension
  and the topic as its action; the lifecycle action is then completed.
\<close>

theorem launch_scenario_creates_one_alarm:
  assumes "instance_tags_of env ''i-123'' = Inr (Some web_prod_tags)"
    and "batch_get_item env (TABLE_NAME env) ''web'' ''prod'' =
           Inr [(TABLE_NAME env,
                 [[(''Alarms'', PDict [(''cpu'',
                      scenario_definition
                        [(''AlarmName'', PStr ''CPUUtilization''), (''AlarmDescription'', description)]
                        (PStr ''True''))])]])]"
    and "py_float env (PNum 80) = Inr th"
    and "py_int env (PNum 300) = Inr 300"
    and "\<forall>h c. raises env h c = None"
    and "EC2InstanceId ev = ''i-123''"
    and "LifecycleTransition ev = ''autoscaling:EC2_INSTANCE_LAUNCHING''"
    and "created =
           \<lparr>AlarmName = ''web-prod-i-123-CPUUtilization'',
            AlarmDescription = Some description,
            MetricName = PStr ''CPUUtilization'',
            Namespace = ''AWS/EC2'',
            Dimensions = [(''InstanceId'', ''i-123'')],
            Period = 300,
            EvaluationPeriods = 1,
            Threshold = th,
            ComparisonOperator = PStr ''GreaterThanThreshold'',
            Statistic = PStr ''Average'',
            ActionsEnabled = Some True,
            AlarmActions = Some [SNS_TOPIC_ARN env]\<rparr>"
  shows "lambda_handler env ev w =
           (Inr 200,
            \<lparr>cw_alarms = upsert_alarm created (cw_alarms w),
             trace = trace w @
               [BatchGetItem (TABLE_NAME env) ''web'' ''prod'',
                PutMetricAlarm created,
                CompleteLifecycleAction (LifecycleHookName ev) (AutoScalingGroupName ev)
                  ''CONTINUE'' ''i-123'']\<rparr>)"
  using assms(1-7) unfolding assms(8)
  by (cases w) (simp add: lifecycle_defs web_prod_tags_def scenario_definition_def)

theorem launch_scenario_creates_one_alarm_witness:
  "lambda_handler
     (scenario_env web_prod_tags
        [[(''Alarms'', PDict [(''cpu'',
             scenario_definition
               [(''AlarmName'', PStr ''CPUUtilization''), (''AlarmDescription'', PStr ''description'')]
               (PStr ''True''))])]] no_failure)
     (launch_event ''i-123'') empty_world =
   (Inr 200,
    \<lparr>cw_alarms = [launched_alarm ''web-prod-i-123-CPUUtilization'' ''CPUUtilization'' 80],
     trace = [BatchGetItem ''alarm-table'' ''web'' ''prod'',
              PutMetricAlarm (launched_alarm ''web-prod-i-123-CPUUtilization'' ''CPUUtilization'' 80),
              CompleteLifecycleAction ''launch-hook'' ''asg'' ''CONTINUE'' ''i-123'']\<rparr>)"
  using launch_scenario_creates_one_alarm
          [of "scenario_env web_prod_tags
                 [[(''Alarms'', PDict [(''cpu'',
                      scenario_definition
                        [(''AlarmName'', PStr ''CPUUtilization''), (''AlarmDescription'', PStr ''description'')]
                        (PStr ''True''))])]] no_failure"
              "PStr ''description''" 80 "launch_event ''i-123''" _ empty_world, OF _ _ _ _ _ _ _ refl]
  by (simp add: scenario_defs decode_instance_id_def slice_2_to_last_def)

text \<open>
  With the definition as the claim first gives it, the handler raises: there is no
  \<open>AlarmName\<close> entry to read (line 139), no alarm is put and the lifecycle action is not
  completed. With the two naming entries added and the flag a boolean, the alarm is put
  with its actions disabled, since line 146 compares the flag with the string \<open>True\<close>.
\<close>

theorem launch_scenario_as_stated_fails:
  "lambda_handler
     (scenario_env web_prod_tags
        [[(''Alarms'', PDict [(''cpu'', scenario_definition [] (PBool True))])]] no_failure)
     (launch_event ''i-123'') empty_world =
   (Inl (KeyError ''AlarmName''),
    \<lparr>cw_alarms = [], trace = [BatchGetItem ''alarm-table'' ''web'' ''prod'']\<rparr>)
   \<and> map ActionsEnabled (cw_alarms (snd (lambda_handler
     (scenario_env web_prod_tags
        [[(''Alarms'', PDict [(''cpu'',
             scenario_definition
               [(''AlarmName'', PStr ''CPUUtilization''), (''AlarmDescription'', PStr ''description'')]
               (PBool True))])]] no_failure)
     (launch_event ''i-123'') empty_world))) = [Some False]"
  by (simp add: scenario_defs lifecycle_defs scenario_definition_def)

section \<open>Properties of the definition-change handler\<close>

lemma extends_with_refl: "extends_with P w w"
  by (simp add: extends_with_def)

lemma extends_with_trans:
  "extends_with P w w1 \<Longrightarrow> extends_with P w1 w2 \<Longrightarrow> extends_with P w w2"
  by (auto simp: extends_with_def)

lemma extends_with_record_call: "P c \<Longrightarrow> extends_with P w (record_call c w)"
  by (simp add: extends_with_def record_call_def)

lemma extends_with_record_call_alarms:
  "P c \<Longrightarrow> extends_with P w (record_call c (w\<lparr>cw_alarms := xs\<rparr>))"
  by (simp add: extends_with_def record_call_def)

lemma put_metric_alarm_extends:
  "P (PutMetricAlarm args) \<Longrightarrow> extends_with P w (snd (put_metric_alarm env args w))"
  by (simp add: put_metric_alarm_def extends_with_record_call extends_with_record_call_alarms
      split: option.splits)

lemma describe_alarms_extends:
  "P (DescribeAlarms p) \<Longrightarrow> extends_with P w (snd (describe_alarms env p w))"
  by (simp add: describe_alarms_def extends_with_record_call split: option.splits)

lemma delete_alarms_extends:
  "P (DeleteAlarms names) \<Longrightarrow> extends_with P w (snd (delete_alarms env names w))"
  by (auto simp: delete_alarms_def extends_with_record_call extends_with_record_call_alarms
      split: option.splits)

lemma complete_lifecycle_action_extends:
  "P (CompleteLifecycleAction h g r i) \<Longrightarrow>
     extends_with P w (snd (complete_lifecycle_action env h g r i w))"
  by (simp add: complete_lifecycle_action_def Let_def extends_with_record_call
      split: option.splits)

lemma delete_alarm_extends:
  "P (DeleteAlarms (Some [n])) \<Longrightarrow> extends_with P w (snd (delete_alarm env n w))"
  using delete_alarms_extends [of P "Some [n]" w env]
  by (auto simp: delete_alarm_def split: prod.splits sum.splits)

lemma update_alarm_extends: "extends_with bare_put w (snd (update_alarm env i d n t w))"
proof (cases d)
  case None
  then show ?thesis by (simp add: update_alarm_def extends_with_refl)
next
  case (Some a)
  show ?thesis
    unfolding update_alarm_def Some option.case
    by (auto simp: bind_exn_def extends_with_refl intro!: put_metric_alarm_extends
        split: sum.splits)
qed

lemma create_alarm_ddb_extends: "extends_with bare_put w (snd (create_alarm_ddb env i d n t w))"
proof (cases d)
  case None
  then show ?thesis by (simp add: create_alarm_ddb_def extends_with_refl)
next
  case (Some a)
  show ?thesis
    unfolding create_alarm_ddb_def Some option.case
    by (auto simp: bind_exn_def extends_with_refl intro!: put_metric_alarm_extends
        split: sum.splits)
qed

lemma create_missing_extends:
  "extends_with bare_put w (snd (create_missing env ex new_alarms i n t ms w))"
proof (induction ms arbitrary: w)
  case Nil
  show ?case by (simp add: extends_with_refl)
next
  case (Cons m ms)
  show ?case
  proof (cases "PStr m \<notin> set ex")
    case False
    then show ?thesis using Cons by simp
  next
    case True
    show ?thesis
    proof (cases "get_new_alarm_def (PStr m) new_alarms")
      case (Inl e)
      with True show ?thesis by (simp add: extends_with_refl)
    next
      case (Inr d)
      obtain r w' where step: "create_alarm_ddb env i d n t w = (r, w')"
        by (cases "create_alarm_ddb env i d n t w")
      have 1: "extends_with bare_put w w'"
        using create_alarm_ddb_extends [of w env i d n t] step by simp
      show ?thesis
      proof (cases r)
        case (Inl e)
        with True Inr step 1 show ?thesis by simp
      next
        case (Inr u)
        with True \<open>get_new_alarm_def (PStr m) new_alarms = Inr d\<close> step
        have "snd (create_missing env ex new_alarms i n t (m # ms) w) =
                snd (create_missing env ex new_alarms i n t ms w')"
          by simp
        with 1 Cons [of w'] show ?thesis
          by (simp add: extends_with_trans)
      qed
    qed
  qed
qed


lemma reconcile_existing_extends:
  "extends_with bare_put w (snd (reconcile_existing env ex new_alarms names n t todo w))"
proof (induction todo arbitrary: w)
  case Nil
  show ?case by (simp add: extends_with_refl)
next
  case (Cons a todo)
  define first where "first =
    (if MetricName a \<in> set (map PStr names) then
       (case get_new_alarm_def (MetricName a) new_alarms of
          Inl e \<Rightarrow> (Inl e, w)
        | Inr d \<Rightarrow> update_alarm env (decode_instance_id (AlarmName a)) d n t w)
     else delete_alarm env (AlarmName a) w)"
  obtain r1 w1 where first: "first = (r1, w1)" by (cases first)
  have 1: "extends_with bare_put w w1"
  proof -
    have "extends_with bare_put w (snd first)"
      unfolding first_def
      using update_alarm_extends [of w env] delete_alarm_extends [of bare_put "AlarmName a" w env]
      by (auto simp: extends_with_refl split: sum.splits)
    with first show ?thesis by simp
  qed
  obtain r2 w2 where second:
    "create_missing env (map MetricName ex) new_alarms (decode_instance_id (AlarmName a)) n t
       names w1 = (r2, w2)"
    by (cases "create_missing env (map MetricName ex) new_alarms
                 (decode_instance_id (AlarmName a)) n t names w1")
  have 2: "extends_with bare_put w1 w2"
    using create_missing_extends
            [of w1 env "map MetricName ex" new_alarms "decode_instance_id (AlarmName a)" n t names]
          second
    by simp
  have unfold: "reconcile_existing env ex new_alarms names n t (a # todo) w =
          (case first of
             (Inl e, w1) \<Rightarrow> (Inl e, w1)
           | (Inr u, w1) \<Rightarrow>
               (case create_missing env (map MetricName ex) new_alarms
                       (decode_instance_id (AlarmName a)) n t names w1 of
                  (Inl e, w2) \<Rightarrow> (Inl e, w2)
                | (Inr u', w2) \<Rightarrow> reconcile_existing env ex new_alarms names n t todo w2))"
    by (simp add: first_def Let_def)
  show ?case
  proof (cases r1)
    case (Inl e)
    with unfold first 1 show ?thesis by simp
  next
    case (Inr u)
    note r1 = this
    show ?thesis
    proof (cases r2)
      case (Inl e)
      with unfold first second r1 1 2 show ?thesis
        by (simp add: extends_with_trans [of bare_put w w1 w2])
    next
      case (Inr u')
      with unfold first second r1
      have "snd (reconcile_existing env ex new_alarms names n t (a # todo) w) =
              snd (reconcile_existing env ex new_alarms names n t todo w2)"
        by simp
      with Cons [of w2] 1 2 show ?thesis
        by (metis extends_with_trans)
    qed
  qed
qed

lemma handle_record_extends: "extends_with bare_put w (snd (handle_record env r w))"
proof -
  have step: "extends_with bare_put w
          (snd (case get_existing_alarms_for_asg env n t w of
                  (Inl e, w1) \<Rightarrow> (Inl e, w1)
                | (Inr ex, w1) \<Rightarrow> reconcile_existing env ex new_alarms names n t ex w1))"
    for n t new_alarms names
  proof -
    obtain r0 w1 where d: "describe_alarms env (n @ ''-'' @ t) w = (r0, w1)"
      by (cases "describe_alarms env (n @ ''-'' @ t) w")
    have 1: "extends_with bare_put w w1"
      using describe_alarms_extends [of bare_put "n @ ''-'' @ t" w env] d by simp
    show ?thesis
    proof (cases r0)
      case (Inl e)
      with d 1 show ?thesis by (simp add: get_existing_alarms_for_asg_def)
    next
      case (Inr ex)
      with d 1 reconcile_existing_extends [of w1 env ex new_alarms names n t ex]
      show ?thesis
        by (simp add: get_existing_alarms_for_asg_def extends_with_trans [of bare_put w w1])
    qed
  qed
  have outer: "extends_with bare_put w
          (snd (case X of
                  Inl e \<Rightarrow> (Inl e, w)
                | Inr (n, t, new_alarms, names) \<Rightarrow>
                    (case get_existing_alarms_for_asg env n t w of
                       (Inl e, w1) \<Rightarrow> (Inl e, w1)
                     | (Inr ex, w1) \<Rightarrow>
                         reconcile_existing env ex new_alarms names n t ex w1)))"
    for X :: "exn + string \<times> string \<times> (string \<times> attr) list \<times> string list"
  proof (cases X)
    case (Inl e)
    then show ?thesis by (simp add: extends_with_refl)
  next
    case (Inr y)
    obtain n t new_alarms names where y: "y = (n, t, new_alarms, names)"
      by (cases y)
    from Inr y step show ?thesis by simp
  qed
  show ?thesis
    unfolding handle_record_def Let_def by (rule outer)
qed

lemma handle_cloudwatch_alarms_extends:
  "extends_with bare_put w (snd (handle_cloudwatch_alarms env records w))"
proof (induction records arbitrary: w)
  case Nil
  show ?case by (simp add: extends_with_refl)
next
  case (Cons r records)
  obtain r1 w1 where h: "handle_record env r w = (r1, w1)"
    by (cases "handle_record env r w")
  have 1: "extends_with bare_put w w1"
    using handle_record_extends [of w env r] h by simp
  show ?case
  proof (cases r1)
    case (Inl e)
    with h 1 show ?thesis by simp
  next
    case (Inr u)
    with h 1 Cons [of w1] show ?thesis
      by (simp add: extends_with_trans [of bare_put w w1])
  qed
qed


lemma create_alarm_extends:
  "extends_with (notifying_put topic) w
     (snd (create_alarm env an mn co p th st ns dims ae topic d w))"
proof -
  let ?args = "\<lambda>t pp. \<lparr>AlarmName = an, AlarmDescription = Some d, MetricName = mn,
      Namespace = ns, Dimensions = dims, Period = pp, EvaluationPeriods = 1, Threshold = t,
      ComparisonOperator = co, Statistic = st, ActionsEnabled = Some ae,
      AlarmActions = Some [topic]\<rparr>"
  have put: "extends_with (notifying_put topic) w (snd (put_metric_alarm env (?args t pp) w))"
    for t pp
    by (rule put_metric_alarm_extends) simp
  show ?thesis
  proof (cases "py_float env th")
    case (Inl e)
    then show ?thesis by (simp add: create_alarm_def extends_with_refl)
  next
    case (Inr t)
    note t = this
    show ?thesis
    proof (cases "py_int env p")
      case (Inl e)
      with t show ?thesis by (simp add: create_alarm_def extends_with_refl)
    next
      case (Inr pp)
      obtain r w' where step: "put_metric_alarm env (?args t pp) w = (r, w')"
        by (cases "put_metric_alarm env (?args t pp) w")
      have "extends_with (notifying_put topic) w (snd (put_metric_alarm env (?args t pp) w))"
        by (rule put)
      with step have "extends_with (notifying_put topic) w w'" by simp
      with t Inr step show ?thesis
        by (cases r) (simp_all add: create_alarm_def)
    qed
  qed
qed

lemma create_alarm_for_metric_extends:
  "extends_with (notifying_put (SNS_TOPIC_ARN env)) w
     (snd (create_alarm_for_metric env alarms app ty i metric w))"
  unfolding create_alarm_for_metric_def
  by (auto simp: extends_with_refl create_alarm_extends split: sum.splits)

lemma create_alarms_loop_extends:
  "extends_with (notifying_put (SNS_TOPIC_ARN env)) w
     (snd (create_alarms_loop env alarms app ty i metrics w))"
proof (induction metrics arbitrary: w)
  case Nil
  show ?case by (simp add: extends_with_refl)
next
  case (Cons m metrics)
  obtain r1 w1 where h: "create_alarm_for_metric env alarms app ty i m w = (r1, w1)"
    by (cases "create_alarm_for_metric env alarms app ty i m w")
  have 1: "extends_with (notifying_put (SNS_TOPIC_ARN env)) w w1"
    using create_alarm_for_metric_extends [of env w alarms app ty i m] h by simp
  show ?case
  proof (cases r1)
    case (Inl e)
    with h 1 show ?thesis by simp
  next
    case (Inr u)
    with h 1 Cons [of w1] show ?thesis
      by (simp add: extends_with_trans [of _ w w1])
  qed
qed

lemma on_launch_extends:
  "extends_with (notifying_put (SNS_TOPIC_ARN env)) w (snd (on_launch env app ty i w))"
proof -
  let ?w1 = "record_call (BatchGetItem (TABLE_NAME env) app ty) w"
  have 1: "extends_with (notifying_put (SNS_TOPIC_ARN env)) w ?w1"
    by (rule extends_with_record_call) simp
  have 2: "extends_with (notifying_put (SNS_TOPIC_ARN env)) w
             (snd (create_alarms_loop env alarms app ty i metrics ?w1))" for alarms metrics
    using 1 create_alarms_loop_extends [of env ?w1 alarms app ty i metrics]
    by (rule extends_with_trans)
  show ?thesis
    unfolding on_launch_def get_alarms_def
    using 1 2 by (auto split: sum.splits)
qed

lemma on_terminate_extends:
  "extends_with (notifying_put topic) w (snd (on_terminate env app ty i w))"
proof -
  let ?p = "app @ ''-'' @ ty @ ''-'' @ i"
  obtain r0 w1 where d: "describe_alarms env ?p w = (r0, w1)"
    by (cases "describe_alarms env ?p w")
  have 1: "extends_with (notifying_put topic) w w1"
    using describe_alarms_extends [of "notifying_put topic" ?p w env] d by simp
  have 2: "extends_with (notifying_put topic) w (snd (delete_alarms env names w1))" for names
    using 1 delete_alarms_extends [of "notifying_put topic" names w1 env]
    by (simp add: extends_with_trans [of _ w w1])
  show ?thesis
    unfolding on_terminate_def get_alarm_name_def Let_def
    using d 1 2 by (cases r0) auto
qed

lemma lambda_handler_extends:
  "extends_with (notifying_put (SNS_TOPIC_ARN env)) w (snd (lambda_handler env ev w))"
proof -
  let ?P = "notifying_put (SNS_TOPIC_ARN env)"
  have finish: "extends_with ?P w
          (snd (case branch of
                  (Inl e, w1) \<Rightarrow> (Inl e, w1)
                | (Inr u, w1) \<Rightarrow>
                    (case complete_lifecycle_action env h g ''CONTINUE'' i w1 of
                       (Inl e, w2) \<Rightarrow> (Inl e, w2)
                     | (Inr u', w2) \<Rightarrow> (Inr 200, w2))))"
    if "extends_with ?P w (snd branch)" for branch :: "(exn + unit) \<times> 'a world" and h g i
  proof -
    obtain r1 w1 where b: "branch = (r1, w1)" by (cases branch)
    with that have 1: "extends_with ?P w w1" by simp
    have 2: "extends_with ?P w (snd (complete_lifecycle_action env h g ''CONTINUE'' i w1))"
      using 1 complete_lifecycle_action_extends [of ?P h g "''CONTINUE''" i w1 env]
      by (simp add: extends_with_trans [of _ w w1])
    show ?thesis
      using b 1 2 by (cases r1) (auto split: prod.splits sum.splits)
  qed
  have branch: "extends_with ?P w
          (snd (if LifecycleTransition ev = ''autoscaling:EC2_INSTANCE_LAUNCHING''
                then on_launch env app ty i w
                else if LifecycleTransition ev = ''autoscaling:EC2_INSTANCE_TERMINATING''
                then on_terminate env app ty i w
                else (Inr (), w)))" for app ty i
    by (simp add: on_launch_extends on_terminate_extends extends_with_refl)
  show ?thesis
    unfolding lambda_handler_def Let_def
    by (simp add: extends_with_refl finish [OF branch] split: sum.splits option.splits)
qed

lemma extends_with_puts:
  assumes "extends_with P w w'"
  shows "\<exists>cs. trace w' = trace w @ cs \<and> (\<forall>a. PutMetricAlarm a \<in> set cs \<longrightarrow> P (PutMetricAlarm a))"
  using assms by (auto simp: extends_with_def list_all_iff)

text \<open>
  Claim C10. Every alarm the definition-change handler puts, on the update path and on
  the create path alike, is put with name, metric, namespace, dimensions, threshold,
  period, evaluation periods, comparison operator and statistic only: it has no
  \<open>AlarmActions\<close>, no \<open>ActionsEnabled\<close> and no \<open>AlarmDescription\<close>. Every alarm the lifecycle
  handler puts has all three, its \<open>AlarmActions\<close> being the configured topic.
\<close>

theorem reconciled_alarms_carry_no_action:
  "(\<exists>cs. trace (snd (handle_cloudwatch_alarms env records w)) = trace w @ cs \<and>
         (\<forall>a. PutMetricAlarm a \<in> set cs \<longrightarrow>
              AlarmActions a = None \<and> ActionsEnabled a = None \<and> AlarmDescription a = None))
   \<and> (\<exists>cs. trace (snd (lambda_handler env ev w)) = trace w @ cs \<and>
         (\<forall>a. PutMetricAlarm a \<in> set cs \<longrightarrow>
              AlarmActions a = Some [SNS_TOPIC_ARN env] \<and> ActionsEnabled a \<noteq> None
              \<and> AlarmDescription a \<noteq> None))"
  using extends_with_puts [OF handle_cloudwatch_alarms_extends [of w env records]]
        extends_with_puts [OF lambda_handler_extends [of env w ev]]
  by simp

theorem reconciled_alarms_carry_no_action_witness:
  "PutMetricAlarm (reconciled_alarm ''web-prod-i-1-MemoryUtilization'' ''MemoryUtilization'' 70)
     \<in> set (trace (snd (handle_cloudwatch_alarms (scenario_env [] [] no_failure)
          [change_record [(''cpu'', stream_def ''CPUUtilization'' ''90''),
                          (''mem'', stream_def ''MemoryUtilization'' ''70'')]]
          \<lparr>cw_alarms = [launched_alarm ''web-prod-i-1-CPUUtilization'' ''CPUUtilization'' 80],
           trace = []\<rparr>)))
   \<and> AlarmActions (reconciled_alarm ''web-prod-i-1-MemoryUtilization'' ''MemoryUtilization'' 70) = None
   \<and> PutMetricAlarm (launched_alarm ''web-prod-i-123-CPUUtilization'' ''CPUUtilization'' 80)
     \<in> set (trace (snd (lambda_handler
          (scenario_env web_prod_tags [[(''Alarms'', PDict [(''cpu'', cpu_launch_def)])]] no_failure)
          (launch_event ''i-123'') empty_world)))
   \<and> AlarmActions (launched_alarm ''web-prod-i-123-CPUUtilization'' ''CPUUtilization'' 80)
       = Some [''arn:aws:sns:topic'']"
proof -
  let ?E = "scenario_env [] [] no_failure :: int env"
  let ?R = "[change_record [(''cpu'', stream_def ''CPUUtilization'' ''90''),
                            (''mem'', stream_def ''MemoryUtilization'' ''70'')]]"
  let ?W = "\<lparr>cw_alarms = [launched_alarm ''web-prod-i-1-CPUUtilization'' ''CPUUtilization'' 80],
             trace = []\<rparr>"
  let ?L = "scenario_env web_prod_tags [[(''Alarms'', PDict [(''cpu'', cpu_launch_def)])]] no_failure"
  let ?mem = "reconciled_alarm ''web-prod-i-1-MemoryUtilization'' ''MemoryUtilization'' 70"
  let ?cpu = "launched_alarm ''web-prod-i-123-CPUUtilization'' ''CPUUtilization'' 80"
  have tr1: "trace (snd (handle_cloudwatch_alarms ?E ?R ?W)) =
          [DescribeAlarms ''web-prod'',
           PutMetricAlarm (reconciled_alarm ''web-prod-i-1-CPUUtilization'' ''CPUUtilization'' 90),
           PutMetricAlarm ?mem]"
    by (simp add: run_reconcile del: handle_cloudwatch_alarms.simps)
  have tr2: "trace (snd (lambda_handler ?L (launch_event ''i-123'') empty_world)) =
          [BatchGetItem ''alarm-table'' ''web'' ''prod'', PutMetricAlarm ?cpu,
           CompleteLifecycleAction ''launch-hook'' ''asg'' ''CONTINUE'' ''i-123'']"
    by (simp add: run_launch)
  from reconciled_alarms_carry_no_action [of ?E ?R ?W "launch_event ''i-123''"]
  obtain cs where cs: "trace (snd (handle_cloudwatch_alarms ?E ?R ?W)) = trace ?W @ cs"
    and bare: "\<forall>a. PutMetricAlarm a \<in> set cs \<longrightarrow> AlarmActions a = None"
    by blast
  from cs have "cs = trace (snd (handle_cloudwatch_alarms ?E ?R ?W))"
    by (simp del: handle_cloudwatch_alarms.simps)
  then have m1: "PutMetricAlarm ?mem \<in> set cs"
    by (simp only: tr1) simp
  with bare have a1: "AlarmActions ?mem = None" by blast
  from reconciled_alarms_carry_no_action [of ?L "[]" empty_world "launch_event ''i-123''"]
  obtain ds where ds: "trace (snd (lambda_handler ?L (launch_event ''i-123'') empty_world)) =
          trace empty_world @ ds"
    and topic: "\<forall>a. PutMetricAlarm a \<in> set ds \<longrightarrow> AlarmActions a = Some [SNS_TOPIC_ARN ?L]"
    by blast
  from ds have "ds = trace (snd (lambda_handler ?L (launch_event ''i-123'') empty_world))"
    by (simp add: empty_world_def)
  then have m2: "PutMetricAlarm ?cpu \<in> set ds"
    by (simp only: tr2) simp
  with topic have a2: "AlarmActions ?cpu = Some [''arn:aws:sns:topic'']"
    by (simp add: scenario_env_def)
  show ?thesis
    unfolding tr1 tr2 using a1 a2 by simp
qed

text \<open>
  Claim C1 says that a metric of the new definitions is created for an instance exactly
  when none of that instance's own alarms has it. Line 64 collects the metric names of
  all existing alarms, of every instance: with \<open>i-1\<close> holding only a CPUUtilization alarm
  and \<open>i-2\<close> only a MemoryUtilization alarm, and both metrics defined, the run updates
  the two alarms and creates nothing, so \<open>i-1\<close> stays without MemoryUtilization and \<open>i-2\<close>
  without CPUUtilization.
\<close>

theorem reconciler_skips_metric_held_by_another_instance:
  "handle_cloudwatch_alarms (scenario_env [] [] no_failure)
     [change_record [(''cpu'', stream_def ''CPUUtilization'' ''80''),
                     (''mem'', stream_def ''MemoryUtilization'' ''70'')]]
     \<lparr>cw_alarms = [launched_alarm ''web-prod-i-1-CPUUtilization'' ''CPUUtilization'' 80,
                   launched_alarm ''web-prod-i-2-MemoryUtilization'' ''MemoryUtilization'' 70],
      trace = []\<rparr> =
   (Inr (),
    \<lparr>cw_alarms = [reconciled_alarm ''web-prod-i-1-CPUUtilization'' ''CPUUtilization'' 80,
                  reconciled_alarm ''web-prod-i-2-MemoryUtilization'' ''MemoryUtilization'' 70],
     trace = [DescribeAlarms ''web-prod'',
              PutMetricAlarm (reconciled_alarm ''web-prod-i-1-CPUUtilization'' ''CPUUtilization'' 80),
              PutMetricAlarm (reconciled_alarm ''web-prod-i-2-MemoryUtilization'' ''MemoryUtilization'' 70)]\<rparr>)"
  by (simp add: scenario_defs reconciler_defs)

text \<open>
  Claim C2 says that an existing alarm whose metric is still defined is updated under
  its own name. \<^verbatim>\<open>update_alarm\<close> builds the name anew from the metric name (line 104),
  whereas the launch path names the alarm after the definition's \<open>AlarmName\<close> (lines 139
  and 140): the alarm \<open>web-prod-i-123-HighCPU\<close>, which a launch creates for a definition
  with \<open>AlarmName\<close> HighCPU, is left as it was, and a second alarm
  \<open>web-prod-i-123-CPUUtilization\<close> is put beside it.
\<close>

theorem update_puts_recomputed_name:
  "lambda_handler
     (scenario_env web_prod_tags
        [[(''Alarms'', PDict [(''cpu'',
             scenario_definition
               [(''AlarmName'', PStr ''HighCPU''), (''AlarmDescription'', PStr ''description'')]
               (PStr ''True''))])]] no_failure)
     (launch_event ''i-123'') empty_world =
   (Inr 200,
    \<lparr>cw_alarms = [launched_alarm ''web-prod-i-123-HighCPU'' ''CPUUtilization'' 80],
     trace = [BatchGetItem ''alarm-table'' ''web'' ''prod'',
              PutMetricAlarm (launched_alarm ''web-prod-i-123-HighCPU'' ''CPUUtilization'' 80),
              CompleteLifecycleAction ''launch-hook'' ''asg'' ''CONTINUE'' ''i-123'']\<rparr>)
   \<and> handle_cloudwatch_alarms (scenario_env [] [] no_failure)
     [change_record [(''cpu'', stream_def ''CPUUtilization'' ''90'')]]
     \<lparr>cw_alarms = [launched_alarm ''web-prod-i-123-HighCPU'' ''CPUUtilization'' 80], trace = []\<rparr> =
   (Inr (),
    \<lparr>cw_alarms = [launched_alarm ''web-prod-i-123-HighCPU'' ''CPUUtilization'' 80,
                  reconciled_alarm ''web-prod-i-123-CPUUtilization'' ''CPUUtilization'' 90],
     trace = [DescribeAlarms ''web-prod'',
              PutMetricAlarm (reconciled_alarm ''web-prod-i-123-CPUUtilization'' ''CPUUtilization'' 90)]\<rparr>)"
  by (simp add: scenario_defs lifecycle_defs reconciler_defs scenario_definition_def)

text \<open>
  Claim C3 says that a failing put is caught and its sibling alarms are still processed.
  \<^verbatim>\<open>update_alarm\<close> and \<^verbatim>\<open>create_alarm\<close> of default\_alarms.py call the service outside any
  \<^verbatim>\<open>try\<close> (unlike \<^verbatim>\<open>delete_alarm\<close> next to them and \<^verbatim>\<open>create_alarm\<close> of cw\_alarm.py): when
  the put for \<open>i-1\<close> raises, the error leaves the handler and the alarm of \<open>i-2\<close> is never
  visited.
\<close>

theorem put_failure_aborts_reconciliation:
  "handle_cloudwatch_alarms
     (scenario_env [] [] (put_fails_for ''web-prod-i-1-CPUUtilization''))
     [change_record [(''cpu'', stream_def ''CPUUtilization'' ''90'')]]
     \<lparr>cw_alarms = [launched_alarm ''web-prod-i-1-CPUUtilization'' ''CPUUtilization'' 80,
                   launched_alarm ''web-prod-i-2-CPUUtilization'' ''CPUUtilization'' 80],
      trace = []\<rparr> =
   (Inl ClientError,
    \<lparr>cw_alarms = [launched_alarm ''web-prod-i-1-CPUUtilization'' ''CPUUtilization'' 80,
                  launched_alarm ''web-prod-i-2-CPUUtilization'' ''CPUUtilization'' 80],
     trace = [DescribeAlarms ''web-prod'',
              PutMetricAlarm (reconciled_alarm ''web-prod-i-1-CPUUtilization'' ''CPUUtilization'' 90)]\<rparr>)"
  by (simp add: scenario_defs reconciler_defs put_fails_for_def)

end
